theory Spec2Isabelle
  imports Main
begin

section \<open>Machine sizes and faults\<close>

text \<open>
  Every index, dimension and hyperparameter of \<^verbatim>\<open>Layers.h\<close> is a \<^verbatim>\<open>size_t\<close>.
  A \<^verbatim>\<open>size_t\<close> is modelled as a natural number below \<open>2 ^ 64\<close>; the arithmetic the
  code performs on hyperparameters is written with the wrap-around spelled out.
  Loop counters that are bounded by their loop limit never wrap and are plain \<open>nat\<close>.
\<close>

definition size_t_mod :: nat where
  "size_t_mod = 2 ^ 64"

definition is_size_t :: "nat \<Rightarrow> bool" where
  "is_size_t n = (n < size_t_mod)"

definition sz_add :: "nat \<Rightarrow> nat \<Rightarrow> nat" where
  "sz_add a b = (a + b) mod size_t_mod"

definition sz_sub :: "nat \<Rightarrow> nat \<Rightarrow> nat" where
  "sz_sub a b = (a + size_t_mod - b mod size_t_mod) mod size_t_mod"

definition sz_mul :: "nat \<Rightarrow> nat \<Rightarrow> nat" where
  "sz_mul a b = (a * b) mod size_t_mod"

text \<open>
  The objects an element access of \<^verbatim>\<open>forward()\<close> can go through. An access whose
  index is out of range is undefined behaviour in the source; the model stops there
  with \<open>OutOfBounds\<close> and the object that was indexed.
\<close>

datatype access_site = InputBuffer | CurrFilter | Bias | Output | Filters

datatype error =
    AssertionFailed string
  | OutOfBounds access_site
  | DivisionByZero

section \<open>The tensor\<close>

text \<open>
  Modelled from the spec: \<^verbatim>\<open>noether/Tensor.h\<close> (class \<^verbatim>\<open>Array3D\<close>) is included by
  \<^verbatim>\<open>Layers.h\<close> but is not among the sources. The spec gives a tensor three
  dimensions and one contiguous buffer of \<open>sx * sy * sz\<close> elements.
\<close>

record 'a Array3D =
  dim_x :: nat
  dim_y :: nat
  dim_z :: nat
  elems :: "'a list"

text \<open>
  Modelled from the spec: the invariant of \<^verbatim>\<open>Array3D\<close>, "buffer size always equals
  \<open>sx * sy * sz\<close>", for a buffer whose size is itself a \<^verbatim>\<open>size_t\<close>.
\<close>

definition wf_Array3D :: "'a Array3D \<Rightarrow> bool" where
  "wf_Array3D t =
     (length (elems t) = dim_x t * dim_y t * dim_z t \<and> is_size_t (length (elems t)))"

text \<open>Modelled from the spec: \<^verbatim>\<open>dims()\<close> returns the current shape.\<close>

definition dims :: "'a Array3D \<Rightarrow> nat \<times> nat \<times> nat" where
  "dims t = (dim_x t, dim_y t, dim_z t)"

text \<open>Modelled from the spec: \<^verbatim>\<open>size()\<close> is the element count \<open>sx * sy * sz\<close>.\<close>

definition size_of :: "'a Array3D \<Rightarrow> nat" where
  "size_of t = dim_x t * dim_y t * dim_z t"

text \<open>
  Modelled from the spec: \<^verbatim>\<open>isInBounds(x, y)\<close> is true iff \<open>0 \<le> x < sx\<close> and
  \<open>0 \<le> y < sy\<close>.
\<close>

definition isInBounds :: "'a Array3D \<Rightarrow> nat \<Rightarrow> nat \<Rightarrow> bool" where
  "isInBounds t x y = (x < dim_x t \<and> y < dim_y t)"

text \<open>
  Modelled from the spec: the buffer position of \<open>(x, y, z)\<close>, "row-major-style
  addressing with depth as the fastest-varying" coordinate.
\<close>

definition getElementIdx :: "'a Array3D \<Rightarrow> nat \<Rightarrow> nat \<Rightarrow> nat \<Rightarrow> nat" where
  "getElementIdx t x y z = (dim_x t * y + x) * dim_z t + z"

text \<open>
  Modelled from the spec: \<^verbatim>\<open>get(x, y, z)\<close> read as a value. Its precondition is
  \<open>x < sx\<close>, \<open>y < sy\<close>, \<open>z < sz\<close>; outside it the behaviour is undefined, which is
  \<open>None\<close> here.
\<close>

definition get_xyz :: "'a Array3D \<Rightarrow> nat \<Rightarrow> nat \<Rightarrow> nat \<Rightarrow> 'a option" where
  "get_xyz t x y z =
     (if x < dim_x t \<and> y < dim_y t \<and> z < dim_z t \<and> getElementIdx t x y z < length (elems t)
      then Some (elems t ! getElementIdx t x y z) else None)"

text \<open>
  Modelled from the spec: an assignment through the reference \<^verbatim>\<open>get(x, y, z)\<close>
  returns, with the same precondition.
\<close>

definition set_xyz :: "'a Array3D \<Rightarrow> nat \<Rightarrow> nat \<Rightarrow> nat \<Rightarrow> 'a \<Rightarrow> 'a Array3D option" where
  "set_xyz t x y z v =
     (if x < dim_x t \<and> y < dim_y t \<and> z < dim_z t \<and> getElementIdx t x y z < length (elems t)
      then Some (t\<lparr>elems := (elems t)[getElementIdx t x y z := v]\<rparr>) else None)"

text \<open>
  Modelled from the spec: flat indexing, \<^verbatim>\<open>get(i)\<close> and \<^verbatim>\<open>operator[]\<close>, "returns the
  i-th element in the 1D layout".
\<close>

definition get_flat :: "'a Array3D \<Rightarrow> nat \<Rightarrow> 'a option" where
  "get_flat t i = (if i < length (elems t) then Some (elems t ! i) else None)"

text \<open>
  Modelled from the spec: \<^verbatim>\<open>reset(sx, sy, sz)\<close> "reallocates storage to hold exactly
  \<open>sx * sy * sz\<close> elements; prior contents are not preserved". The spec does not say
  what the new buffer holds; the model fills it with zeros.
\<close>

definition reset :: "nat \<Rightarrow> nat \<Rightarrow> nat \<Rightarrow> ('a::zero) Array3D" where
  "reset sx sy sz =
     \<lparr>dim_x = sx, dim_y = sy, dim_z = sz, elems = replicate (sx * sy * sz) 0\<rparr>"

section \<open>Loops and faulting accesses\<close>

text \<open>
  \<^verbatim>\<open>for (size_t i = 0; i < n; i++) body\<close> runs the body for \<open>i\<close> in \<open>[0..<n]\<close>, threading
  the state the body changes; a fault in the body ends the loop with that fault.
\<close>

fun for_loop :: "(nat \<Rightarrow> 's \<Rightarrow> error + 's) \<Rightarrow> nat list \<Rightarrow> 's \<Rightarrow> error + 's" where
  "for_loop body [] s = Inr s"
| "for_loop body (i # is) s =
     (case body i s of Inl e \<Rightarrow> Inl e | Inr s' \<Rightarrow> for_loop body is s')"

text \<open>
  \<^verbatim>\<open>size_t x = 0; for (size_t a = 0; a < n; x += stride_, a++) body\<close>: the counter \<open>a\<close>
  ranges over \<open>[0..<n]\<close> while \<open>x\<close> advances by the stride in \<^verbatim>\<open>size_t\<close> arithmetic.
\<close>

fun for_stride ::
  "(nat \<Rightarrow> nat \<Rightarrow> 's \<Rightarrow> error + 's) \<Rightarrow> nat \<Rightarrow> nat list \<Rightarrow> nat \<Rightarrow> 's \<Rightarrow> error + 's" where
  "for_stride body stride [] x s = Inr s"
| "for_stride body stride (a # as) x s =
     (case body a x s of
        Inl e \<Rightarrow> Inl e
      | Inr s' \<Rightarrow> for_stride body stride as (sz_add x stride) s')"

definition access :: "access_site \<Rightarrow> 'b option \<Rightarrow> error + 'b" where
  "access site r = (case r of None \<Rightarrow> Inl (OutOfBounds site) | Some v \<Rightarrow> Inr v)"

text \<open>\<^verbatim>\<open>filters_[d]\<close> on the \<^verbatim>\<open>std::vector\<close>: unchecked, undefined past the end.\<close>

definition vector_at :: "'b list \<Rightarrow> nat \<Rightarrow> 'b option" where
  "vector_at xs i = (if i < length xs then Some (xs ! i) else None)"

section \<open>ConvLayer\<close>

text \<open>
  The fields of \<^verbatim>\<open>ConvLayer\<close>; a field \<^verbatim>\<open>name_\<close> of the class is \<open>conv_name\<close>
  here. \<^verbatim>\<open>input_\<close> is a pointer to the predecessor layer, through which the layer only
  ever reads the predecessor's output tensor (\<^verbatim>\<open>input_->dims()\<close>,
  \<^verbatim>\<open>input_->getOutput()\<close>); \<open>conv_input\<close> holds that tensor.
\<close>

record 'a ConvLayer =
  conv_input :: "'a Array3D"
  conv_filters :: "'a Array3D list"
  conv_bias :: "'a Array3D"
  conv_output :: "'a Array3D"
  conv_filterSize :: nat
  conv_stride :: nat
  conv_pad :: nat

text \<open>
  The loop \<^verbatim>\<open>for (i < outDepth) filters_.emplace(sx, sy, sz)\<close> of both constructors:
  one freshly shaped filter is appended per iteration.
\<close>

fun emplace_filters :: "nat list \<Rightarrow> nat \<Rightarrow> nat \<Rightarrow> nat \<Rightarrow> ('a::zero) Array3D list \<Rightarrow> 'a Array3D list" where
  "emplace_filters [] sx sy sz fs = fs"
| "emplace_filters (i # is) sx sy sz fs = emplace_filters is sx sy sz (fs @ [reset sx sy sz])"

text \<open>
  The constructor. A null \<open>input\<close> is \<open>None\<close>. The two assertions come first, in the
  source's order; the shape arithmetic is \<^verbatim>\<open>size_t\<close> arithmetic, and a zero stride
  divides by zero.
\<close>

definition ConvLayer_new ::
  "('a::zero) Array3D option \<Rightarrow> nat \<Rightarrow> nat \<Rightarrow> nat \<Rightarrow> nat \<Rightarrow> error + 'a ConvLayer" where
  "ConvLayer_new input outDepth filterSize stride pad =
     (if pad \<noteq> 0 then Inl (AssertionFailed ''Unsupported pad size'')
      else case input of
        None \<Rightarrow> Inl (AssertionFailed ''Invalid input layer'')
      | Some inp \<Rightarrow>
          (case dims inp of (inx, iny, inz) \<Rightarrow>
             if stride = 0 then Inl DivisionByZero
             else
               let outsx = sz_add (sz_sub (sz_add inx (sz_mul pad 2)) filterSize div stride) 1;
                   outsy = sz_add (sz_sub (sz_add iny (sz_mul pad 2)) filterSize div stride) 1
               in Inr \<lparr>conv_input = inp,
                       conv_filters = emplace_filters [0..<outDepth] filterSize filterSize inz [],
                       conv_bias = reset 1 1 outDepth,
                       conv_output = reset outsx outsy outDepth,
                       conv_filterSize = filterSize,
                       conv_stride = stride,
                       conv_pad = pad\<rparr>))"

text \<open>
  The three innermost loops of \<^verbatim>\<open>forward()\<close>: the sum over the filter taps
  \<open>(fx, fy)\<close> of the window anchored at \<open>(x, y)\<close> and, for each tap that passes the
  test \<^verbatim>\<open>output_.isInBounds(ox, oy)\<close>, over the input channels \<open>fd\<close>.
\<close>

definition conv_tap ::
  "('a::semiring_0) ConvLayer \<Rightarrow> 'a Array3D \<Rightarrow> nat \<Rightarrow> nat \<Rightarrow> nat \<Rightarrow> nat \<Rightarrow> nat \<Rightarrow> 'a \<Rightarrow> error + 'a" where
  "conv_tap L currFilter fx fy ox oy fd sumv =
     (case access CurrFilter (get_xyz currFilter fx fy fd) of
        Inl e \<Rightarrow> Inl e
      | Inr w \<Rightarrow>
          (case access InputBuffer (get_xyz (conv_input L) ox oy fd) of
             Inl e \<Rightarrow> Inl e
           | Inr v \<Rightarrow> Inr (sumv + w * v)))"

definition conv_window ::
  "('a::semiring_0) ConvLayer \<Rightarrow> 'a Array3D \<Rightarrow> nat \<Rightarrow> nat \<Rightarrow> nat \<Rightarrow> error + 'a" where
  "conv_window L currFilter inz x y =
     for_loop (\<lambda>fy.
       for_loop (\<lambda>fx sumv.
         let ox = sz_add x fx; oy = sz_add y fy in
         if isInBounds (conv_output L) ox oy
         then for_loop (conv_tap L currFilter fx fy ox oy) [0..<inz] sumv
         else Inr sumv)
       [0..<conv_filterSize L])
     [0..<conv_filterSize L] 0"

text \<open>
  The body of the \<open>ax\<close> loop: the window sum, \<^verbatim>\<open>sum += bias_.get(d)\<close>, and the store
  \<^verbatim>\<open>output_.get(ax, ay, d) = sum\<close>.
\<close>

definition conv_store ::
  "'a Array3D \<Rightarrow> nat \<Rightarrow> nat \<Rightarrow> nat \<Rightarrow> nat \<Rightarrow> nat \<Rightarrow> nat \<Rightarrow> ('a::semiring_0) ConvLayer \<Rightarrow>
     error + 'a ConvLayer" where
  "conv_store currFilter inz d ay y ax x L =
     (case conv_window L currFilter inz x y of
        Inl e \<Rightarrow> Inl e
      | Inr sumv \<Rightarrow>
          (case access Bias (get_flat (conv_bias L) d) of
             Inl e \<Rightarrow> Inl e
           | Inr b \<Rightarrow>
               (case access Output (set_xyz (conv_output L) ax ay d (sumv + b)) of
                  Inl e \<Rightarrow> Inl e
                | Inr out \<Rightarrow> Inr (L\<lparr>conv_output := out\<rparr>))))"

text \<open>
  \<^verbatim>\<open>forward()\<close>. The dimensions are read once. Both spatial loops run up to \<open>outy\<close>,
  as the source has them.
\<close>

definition conv_slice ::
  "nat \<Rightarrow> nat \<Rightarrow> nat \<Rightarrow> ('a::semiring_0) ConvLayer \<Rightarrow> error + 'a ConvLayer" where
  "conv_slice outy inz d L =
     (case access Filters (vector_at (conv_filters L) d) of
        Inl e \<Rightarrow> Inl e
      | Inr currFilter \<Rightarrow>
          for_stride (\<lambda>ay y.
            for_stride (conv_store currFilter inz d ay y) (conv_stride L) [0..<outy] 0)
          (conv_stride L) [0..<outy] 0 L)"

definition ConvLayer_forward :: "('a::semiring_0) ConvLayer \<Rightarrow> error + 'a ConvLayer" where
  "ConvLayer_forward L =
     (case dims (conv_output L) of (outx, outy, outz) \<Rightarrow>
      case dims (conv_input L) of (inx, iny, inz) \<Rightarrow>
        for_loop (conv_slice outy inz) [0..<outz] L)"

section \<open>FullyConnectedLayer\<close>

text \<open>The fields of \<^verbatim>\<open>FullyConnectedLayer\<close>; a field \<^verbatim>\<open>name_\<close> is \<open>fc_name\<close> here.\<close>

record 'a FullyConnectedLayer =
  fc_input :: "'a Array3D"
  fc_filters :: "'a Array3D list"
  fc_bias :: "'a Array3D"
  fc_output :: "'a Array3D"

definition FullyConnectedLayer_new ::
  "('a::zero) Array3D option \<Rightarrow> nat \<Rightarrow> error + 'a FullyConnectedLayer" where
  "FullyConnectedLayer_new input outDepth =
     (case input of
        None \<Rightarrow> Inl (AssertionFailed ''Invalid input layer'')
      | Some inp \<Rightarrow>
          (let numInputs = size_of inp
           in Inr \<lparr>fc_input = inp,
                   fc_filters = emplace_filters [0..<outDepth] 1 1 numInputs [],
                   fc_bias = reset 1 1 outDepth,
                   fc_output = reset 1 1 outDepth\<rparr>))"

text \<open>
  The statement \<^verbatim>\<open>sum += inputBuffer.get(x,y,z) * currFilter[idx++]\<close> and the three
  loops around it; the state is the pair of \<^verbatim>\<open>sum\<close> and \<open>idx\<close>.
\<close>

definition fc_term ::
  "('a::semiring_0) Array3D \<Rightarrow> 'a Array3D \<Rightarrow> nat \<Rightarrow> nat \<Rightarrow> nat \<Rightarrow> 'a \<times> nat \<Rightarrow> error + 'a \<times> nat" where
  "fc_term inputBuffer currFilter x y z st =
     (case st of (sumv, idx) \<Rightarrow>
        (case access InputBuffer (get_xyz inputBuffer x y z) of
           Inl e \<Rightarrow> Inl e
         | Inr v \<Rightarrow>
             (case access CurrFilter (get_flat currFilter idx) of
                Inl e \<Rightarrow> Inl e
              | Inr w \<Rightarrow> Inr (sumv + v * w, sz_add idx 1))))"

definition fc_dot ::
  "('a::semiring_0) Array3D \<Rightarrow> 'a Array3D \<Rightarrow> nat \<Rightarrow> nat \<Rightarrow> nat \<Rightarrow> error + 'a \<times> nat" where
  "fc_dot inputBuffer currFilter inx iny inz =
     for_loop (\<lambda>x.
       for_loop (\<lambda>y.
         for_loop (fc_term inputBuffer currFilter x y) [0..<inz])
       [0..<iny])
     [0..<inx] (0, 0)"

text \<open>
  The body of the loop over the output units: the dot product, the assertion
  \<^verbatim>\<open>idx == numInputs\<close>, \<^verbatim>\<open>sum += bias_[i]\<close> and the store
  \<^verbatim>\<open>output_.get(1,1,i) = sum\<close>.
\<close>

definition fc_unit ::
  "nat \<Rightarrow> nat \<Rightarrow> nat \<Rightarrow> nat \<Rightarrow> nat \<Rightarrow> ('a::semiring_0) FullyConnectedLayer \<Rightarrow> error + 'a FullyConnectedLayer" where
  "fc_unit inx iny inz numInputs i L =
     (case access Filters (vector_at (fc_filters L) i) of
        Inl e \<Rightarrow> Inl e
      | Inr currFilter \<Rightarrow>
          (case fc_dot (fc_input L) currFilter inx iny inz of
             Inl e \<Rightarrow> Inl e
           | Inr (sumv, idx) \<Rightarrow>
               if idx \<noteq> numInputs then Inl (AssertionFailed ''Invalid index'')
               else
                 (case access Bias (get_flat (fc_bias L) i) of
                    Inl e \<Rightarrow> Inl e
                  | Inr b \<Rightarrow>
                      (case access Output (set_xyz (fc_output L) 1 1 i (sumv + b)) of
                         Inl e \<Rightarrow> Inl e
                       | Inr out \<Rightarrow> Inr (L\<lparr>fc_output := out\<rparr>)))))"

definition FullyConnectedLayer_forward ::
  "('a::semiring_0) FullyConnectedLayer \<Rightarrow> error + 'a FullyConnectedLayer" where
  "FullyConnectedLayer_forward L =
     (case dims (fc_input L) of (inx, iny, inz) \<Rightarrow>
      case dims (fc_output L) of (outx, outy, outz) \<Rightarrow>
        for_loop (fc_unit inx iny inz (size_of (fc_input L))) [0..<outz] L)"

section \<open>Frames and write logs\<close>

text \<open>
  Two states of a layer are in the same frame when they agree on everything but the
  contents of the output buffer: the predecessor's output, the filters, the bias, the
  hyperparameters, and the shape and length of the output tensor.
\<close>

definition conv_frame :: "'a ConvLayer \<Rightarrow> 'a ConvLayer \<Rightarrow> bool" where
  "conv_frame L L2 \<longleftrightarrow>
     conv_input L2 = conv_input L \<and> conv_filters L2 = conv_filters L \<and>
     conv_bias L2 = conv_bias L \<and> conv_filterSize L2 = conv_filterSize L \<and>
     conv_stride L2 = conv_stride L \<and> conv_pad L2 = conv_pad L \<and>
     dims (conv_output L2) = dims (conv_output L) \<and>
     length (elems (conv_output L2)) = length (elems (conv_output L))"

definition fc_frame :: "'a FullyConnectedLayer \<Rightarrow> 'a FullyConnectedLayer \<Rightarrow> bool" where
  "fc_frame L L2 \<longleftrightarrow>
     fc_input L2 = fc_input L \<and> fc_filters L2 = fc_filters L \<and> fc_bias L2 = fc_bias L \<and>
     dims (fc_output L2) = dims (fc_output L) \<and>
     length (elems (fc_output L2)) = length (elems (fc_output L))"

text \<open>
  A write log is the sequence of buffer positions and values that a run stores;
  applying it replays the stores, later ones over earlier ones.
\<close>

definition apply_writes :: "(nat \<times> 'a) list \<Rightarrow> 'a list \<Rightarrow> 'a list" where
  "apply_writes ws b = fold (\<lambda>w b. b[fst w := snd w]) ws b"

definition conv_upd :: "(nat \<times> 'a) list \<Rightarrow> 'a ConvLayer \<Rightarrow> 'a ConvLayer" where
  "conv_upd ws L =
     L\<lparr>conv_output := (conv_output L)\<lparr>elems := apply_writes ws (elems (conv_output L))\<rparr>\<rparr>"

definition fc_upd :: "(nat \<times> 'a) list \<Rightarrow> 'a FullyConnectedLayer \<Rightarrow> 'a FullyConnectedLayer" where
  "fc_upd ws L =
     L\<lparr>fc_output := (fc_output L)\<lparr>elems := apply_writes ws (elems (fc_output L))\<rparr>\<rparr>"

text \<open>
  A computation is a \<open>writer\<close> when each of its successful runs amounts to applying one
  write log that depends on the frame only: started anywhere in the same frame it
  succeeds and applies the same log. \<open>update_structure\<close> collects what replaying logs
  must satisfy for writers to compose.
\<close>

definition update_structure :: "((nat \<times> 'a) list \<Rightarrow> 's \<Rightarrow> 's) \<Rightarrow> ('s \<Rightarrow> 's \<Rightarrow> bool) \<Rightarrow> bool" where
  "update_structure upd sim \<longleftrightarrow>
     (\<forall>L. sim L L) \<and>
     (\<forall>ws L L2. sim L L2 \<longrightarrow> sim (upd ws L) (upd ws L2)) \<and>
     (\<forall>ws L. sim L (upd ws L)) \<and>
     (\<forall>L. upd [] L = L) \<and>
     (\<forall>ws vs L. upd vs (upd ws L) = upd (ws @ vs) L) \<and>
     (\<forall>ws L. upd ws (upd ws L) = upd ws L)"

definition writer ::
  "((nat \<times> 'a) list \<Rightarrow> 's \<Rightarrow> 's) \<Rightarrow> ('s \<Rightarrow> 's \<Rightarrow> bool) \<Rightarrow> ('s \<Rightarrow> error + 's) \<Rightarrow> bool" where
  "writer upd sim g \<longleftrightarrow>
     (\<forall>L L'. g L = Inr L' \<longrightarrow> (\<exists>ws. \<forall>L2. sim L L2 \<longrightarrow> g L2 = Inr (upd ws L2)))"

section \<open>Concrete layers\<close>

text \<open>
  A fully-connected layer with one unit over a \<open>2 \<times> 1 \<times> 2\<close> predecessor, and a
  convolution over the \<open>2 \<times> 1 \<times> 1\<close> predecessor \<open>[5, 7]\<close> with one \<open>1 \<times> 1\<close> filter of
  weight 1, stride 1 and bias 0, given with the contents its \<open>2 \<times> 1 \<times> 1\<close> output tensor
  holds before the run.
\<close>

definition ex_fc :: "int FullyConnectedLayer" where
  "ex_fc =
     \<lparr>fc_input = \<lparr>dim_x = 2, dim_y = 1, dim_z = 2, elems = [1, 2, 3, 4]\<rparr>,
      fc_filters = [\<lparr>dim_x = 1, dim_y = 1, dim_z = 4, elems = [1, 1, 1, 1]\<rparr>],
      fc_bias = \<lparr>dim_x = 1, dim_y = 1, dim_z = 1, elems = [0]\<rparr>,
      fc_output = \<lparr>dim_x = 1, dim_y = 1, dim_z = 1, elems = [0]\<rparr>\<rparr>"

definition ex_row_conv :: "int list \<Rightarrow> int ConvLayer" where
  "ex_row_conv prior =
     \<lparr>conv_input = \<lparr>dim_x = 2, dim_y = 1, dim_z = 1, elems = [5, 7]\<rparr>,
      conv_filters = [\<lparr>dim_x = 1, dim_y = 1, dim_z = 1, elems = [1]\<rparr>],
      conv_bias = \<lparr>dim_x = 1, dim_y = 1, dim_z = 1, elems = [0]\<rparr>,
      conv_output = \<lparr>dim_x = 2, dim_y = 1, dim_z = 1, elems = prior\<rparr>,
      conv_filterSize = 1, conv_stride = 1, conv_pad = 0\<rparr>"

section \<open>Arithmetic of sizes\<close>

lemma sz_add_small: "a + b < size_t_mod \<Longrightarrow> sz_add a b = a + b"
  by (simp add: sz_add_def)

lemma sz_sub_small:
  assumes "b \<le> a" and "a < size_t_mod"
  shows "sz_sub a b = a - b"
proof -
  have 1: "b mod size_t_mod = b"
    using assms by simp
  have 2: "a + size_t_mod - b = size_t_mod + (a - b)"
    using assms by simp
  have 3: "a - b < size_t_mod"
    using assms by simp
  show ?thesis
    unfolding sz_sub_def 1 2 using 3 by simp
qed

text \<open>
  The constructor's expression \<^verbatim>\<open>(in + pad_ * 2 - filterSize) / stride + 1\<close> at
  \<open>pad = 0\<close>: when the filter fits and the result is a \<^verbatim>\<open>size_t\<close>, nothing wraps.
\<close>

lemma conv_out_dim:
  assumes "is_size_t w" "f \<le> w" "is_size_t ((w - f) div s + 1)"
  shows "sz_add (sz_sub (sz_add w (sz_mul 0 2)) f div s) 1 = (w + 2 * 0 - f) div s + 1"
proof -
  have w: "w < size_t_mod" and r: "(w - f) div s + 1 < size_t_mod"
    using assms by (simp_all add: is_size_t_def)
  have "sz_mul 0 2 = 0"
    by (simp add: sz_mul_def)
  moreover have "sz_add w 0 = w"
    using w by (simp add: sz_add_def)
  moreover have "sz_sub w f = w - f"
    using assms(2) w by (rule sz_sub_small)
  moreover have "sz_add ((w - f) div s) 1 = (w - f) div s + 1"
    using r by (rule sz_add_small)
  ultimately show ?thesis
    by simp
qed

section \<open>Write logs\<close>

lemma length_apply_writes [simp]: "length (apply_writes ws b) = length b"
  unfolding apply_writes_def by (induction ws arbitrary: b) auto

lemma apply_writes_append: "apply_writes (ws @ vs) b = apply_writes vs (apply_writes ws b)"
  by (simp add: apply_writes_def)

lemma apply_writes_nth:
  "k < length b \<Longrightarrow>
     apply_writes ws b ! k = (case map_of (rev ws) k of None \<Rightarrow> b ! k | Some v \<Rightarrow> v)"
proof (induction ws arbitrary: b rule: rev_induct)
  case Nil
  then show ?case by (simp add: apply_writes_def)
next
  case (snoc w ws)
  obtain j v where w: "w = (j, v)" by (cases w)
  have "apply_writes (ws @ [w]) b = (apply_writes ws b)[j := v]"
    by (simp add: apply_writes_def w)
  then show ?case using snoc by (auto simp: w nth_list_update)
qed

lemma apply_writes_idem: "apply_writes ws (apply_writes ws b) = apply_writes ws b"
  by (rule nth_equalityI) (auto simp: apply_writes_nth split: option.splits)

lemma apply_writes_Nil [simp]: "apply_writes [] b = b"
  by (simp add: apply_writes_def)

section \<open>Writers compose\<close>

lemma writer_bind:
  assumes us: "update_structure upd sim"
    and g: "writer upd sim g" and h: "writer upd sim h"
  shows "writer upd sim (\<lambda>L. case g L of Inl e \<Rightarrow> Inl e | Inr L1 \<Rightarrow> h L1)"
  unfolding writer_def
proof (intro allI impI)
  fix L L'
  assume run: "(case g L of Inl e \<Rightarrow> Inl e | Inr L1 \<Rightarrow> h L1) = Inr L'"
  then obtain L1 where gL: "g L = Inr L1" and hL: "h L1 = Inr L'"
    by (auto split: sum.splits)
  from g gL obtain ws1 where ws1: "\<And>L2. sim L L2 \<Longrightarrow> g L2 = Inr (upd ws1 L2)"
    unfolding writer_def by blast
  from h hL obtain ws2 where ws2: "\<And>L3. sim L1 L3 \<Longrightarrow> h L3 = Inr (upd ws2 L3)"
    unfolding writer_def by blast
  have refl: "sim L L" and pres: "\<And>ws A B. sim A B \<Longrightarrow> sim (upd ws A) (upd ws B)"
    and app: "\<And>ws vs A. upd vs (upd ws A) = upd (ws @ vs) A"
    using us unfolding update_structure_def by blast+
  have L1: "L1 = upd ws1 L"
    using ws1 [OF refl] gL by simp
  show "\<exists>ws. \<forall>L2. sim L L2 \<longrightarrow>
      (case g L2 of Inl e \<Rightarrow> Inl e | Inr L1 \<Rightarrow> h L1) = Inr (upd ws L2)"
  proof (intro exI [of _ "ws1 @ ws2"] allI impI)
    fix L2
    assume s: "sim L L2"
    have "sim L1 (upd ws1 L2)"
      unfolding L1 using s by (rule pres)
    then have "h (upd ws1 L2) = Inr (upd ws2 (upd ws1 L2))"
      by (rule ws2)
    then show "(case g L2 of Inl e \<Rightarrow> Inl e | Inr L1 \<Rightarrow> h L1) = Inr (upd (ws1 @ ws2) L2)"
      using ws1 [OF s] by (simp add: app)
  qed
qed

lemma writer_return:
  assumes "update_structure upd sim"
  shows "writer upd sim Inr"
proof -
  have "\<And>L. upd [] L = L"
    using assms unfolding update_structure_def by blast
  then show ?thesis
    unfolding writer_def by (metis sum.inject(2))
qed

lemma writer_for_loop:
  assumes us: "update_structure upd sim" and body: "\<And>i. writer upd sim (body i)"
  shows "writer upd sim (for_loop body is)"
proof (induction "is")
  case Nil
  have "for_loop body [] = Inr" by (rule ext) simp
  then show ?case using writer_return [OF us] by simp
next
  case (Cons i "is")
  have "for_loop body (i # is) =
      (\<lambda>L. case body i L of Inl e \<Rightarrow> Inl e | Inr L1 \<Rightarrow> for_loop body is L1)"
    by (rule ext) simp
  then show ?case
    using writer_bind [OF us body [of i] Cons] by simp
qed

lemma writer_for_stride:
  assumes us: "update_structure upd sim" and body: "\<And>a x. writer upd sim (body a x)"
  shows "writer upd sim (for_stride body stride as x)"
proof (induction as arbitrary: x)
  case Nil
  have "for_stride body stride [] x = Inr" by (rule ext) simp
  then show ?case using writer_return [OF us] by simp
next
  case (Cons a as)
  have "for_stride body stride (a # as) x =
      (\<lambda>L. case body a x L of Inl e \<Rightarrow> Inl e
            | Inr L1 \<Rightarrow> for_stride body stride as (sz_add x stride) L1)"
    by (rule ext) simp
  then show ?case
    using writer_bind [OF us body [of a x] Cons [of "sz_add x stride"]] by simp
qed

lemma writer_idem:
  assumes us: "update_structure upd sim" and g: "writer upd sim g" and run: "g L = Inr L'"
  shows "g L' = Inr L'" and "sim L L'"
proof -
  from g run obtain ws where ws: "\<And>L2. sim L L2 \<Longrightarrow> g L2 = Inr (upd ws L2)"
    unfolding writer_def by blast
  have refl: "sim L L" and ext: "sim L (upd ws L)" and idem: "upd ws (upd ws L) = upd ws L"
    using us unfolding update_structure_def by blast+
  have L': "L' = upd ws L"
    using ws [OF refl] run by simp
  show "sim L L'"
    unfolding L' by (rule ext)
  show "g L' = Inr L'"
    unfolding L' using ws [OF ext] by (simp add: idem)
qed

section \<open>The forward passes are writers\<close>

lemma conv_update_structure: "update_structure conv_upd conv_frame"
  unfolding update_structure_def
  by (simp add: conv_upd_def conv_frame_def dims_def apply_writes_append apply_writes_idem)

lemma conv_tap_frame:
  assumes "conv_frame L L2"
  shows "conv_tap L2 cf fx fy ox oy = conv_tap L cf fx fy ox oy"
  using assms by (intro ext) (simp add: conv_frame_def conv_tap_def cong: sum.case_cong)

lemma conv_window_frame:
  assumes "conv_frame L L2"
  shows "conv_window L2 cf inz x y = conv_window L cf inz x y"
  using assms
  by (simp add: conv_frame_def conv_window_def conv_tap_frame [OF assms] isInBounds_def dims_def
      Let_def cong: if_cong)

lemma conv_store_writer: "writer conv_upd conv_frame (conv_store cf inz d ay y ax x)"
  unfolding writer_def
proof (intro allI impI)
  fix L L' :: "'a ConvLayer"
  assume run: "conv_store cf inz d ay y ax x L = Inr L'"
  then obtain sumv b out where w: "conv_window L cf inz x y = Inr sumv"
    and b: "get_flat (conv_bias L) d = Some b"
    and s: "set_xyz (conv_output L) ax ay d (sumv + b) = Some out"
    by (auto simp: conv_store_def access_def split: sum.splits option.splits)
  define k where "k = getElementIdx (conv_output L) ax ay d"
  have inb: "ax < dim_x (conv_output L) \<and> ay < dim_y (conv_output L) \<and> d < dim_z (conv_output L) \<and>
      k < length (elems (conv_output L))"
    using s by (simp add: set_xyz_def k_def split: if_splits)
  show "\<exists>ws. \<forall>L2. conv_frame L L2 \<longrightarrow> conv_store cf inz d ay y ax x L2 = Inr (conv_upd ws L2)"
  proof (intro exI [of _ "[(k, sumv + b)]"] allI impI)
    fix L2
    assume f: "conv_frame L L2"
    have k2: "getElementIdx (conv_output L2) ax ay d = k"
      using f by (simp add: conv_frame_def dims_def getElementIdx_def k_def)
    have "set_xyz (conv_output L2) ax ay d (sumv + b) =
        Some ((conv_output L2)\<lparr>elems := (elems (conv_output L2))[k := sumv + b]\<rparr>)"
      using f inb k2 by (simp add: set_xyz_def conv_frame_def dims_def)
    moreover have "get_flat (conv_bias L2) d = Some b"
      using f b by (simp add: conv_frame_def)
    ultimately show "conv_store cf inz d ay y ax x L2 = Inr (conv_upd [(k, sumv + b)] L2)"
      using w conv_window_frame [OF f]
      by (simp add: conv_store_def access_def conv_upd_def apply_writes_def)
  qed
qed

lemma conv_slice_writer: "writer conv_upd conv_frame (conv_slice outy inz d)"
  unfolding writer_def
proof (intro allI impI)
  fix L L' :: "'a ConvLayer"
  assume run: "conv_slice outy inz d L = Inr L'"
  then obtain cf where cf: "vector_at (conv_filters L) d = Some cf"
    by (auto simp: conv_slice_def access_def split: sum.splits option.splits)
  define loops where "loops = for_stride (\<lambda>ay y.
      for_stride (conv_store cf inz d ay y) (conv_stride L) [0..<outy] 0) (conv_stride L) [0..<outy] 0"
  have "writer conv_upd conv_frame loops"
    unfolding loops_def
    by (intro writer_for_stride conv_update_structure conv_store_writer)
  moreover have "loops L = Inr L'"
    using run cf by (simp add: conv_slice_def access_def loops_def)
  ultimately obtain ws where ws: "\<And>L2. conv_frame L L2 \<Longrightarrow> loops L2 = Inr (conv_upd ws L2)"
    unfolding writer_def by blast
  show "\<exists>ws. \<forall>L2. conv_frame L L2 \<longrightarrow> conv_slice outy inz d L2 = Inr (conv_upd ws L2)"
  proof (intro exI [of _ ws] allI impI)
    fix L2
    assume f: "conv_frame L L2"
    then have "conv_slice outy inz d L2 = loops L2"
      using cf by (simp add: conv_slice_def access_def loops_def conv_frame_def)
    then show "conv_slice outy inz d L2 = Inr (conv_upd ws L2)"
      using ws [OF f] by simp
  qed
qed

lemma ConvLayer_forward_writer: "writer conv_upd conv_frame ConvLayer_forward"
  unfolding writer_def
proof (intro allI impI)
  fix L L' :: "'a ConvLayer"
  assume run: "ConvLayer_forward L = Inr L'"
  define loops :: "'a ConvLayer \<Rightarrow> error + 'a ConvLayer"
    where "loops = for_loop (conv_slice (dim_y (conv_output L)) (dim_z (conv_input L)))
      [0..<dim_z (conv_output L)]"
  have "writer conv_upd conv_frame loops"
    unfolding loops_def by (intro writer_for_loop conv_update_structure conv_slice_writer)
  moreover have "loops L = Inr L'"
    using run by (simp add: ConvLayer_forward_def dims_def loops_def)
  ultimately obtain ws where ws: "\<And>L2. conv_frame L L2 \<Longrightarrow> loops L2 = Inr (conv_upd ws L2)"
    unfolding writer_def by blast
  show "\<exists>ws. \<forall>L2. conv_frame L L2 \<longrightarrow> ConvLayer_forward L2 = Inr (conv_upd ws L2)"
  proof (intro exI [of _ ws] allI impI)
    fix L2
    assume f: "conv_frame L L2"
    then have "ConvLayer_forward L2 = loops L2"
      by (simp add: ConvLayer_forward_def dims_def loops_def conv_frame_def)
    then show "ConvLayer_forward L2 = Inr (conv_upd ws L2)"
      using ws [OF f] by simp
  qed
qed

lemma fc_update_structure: "update_structure fc_upd fc_frame"
  unfolding update_structure_def
  by (simp add: fc_upd_def fc_frame_def dims_def apply_writes_append apply_writes_idem)

lemma fc_unit_writer: "writer fc_upd fc_frame (fc_unit inx iny inz n i)"
  unfolding writer_def
proof (intro allI impI)
  fix L L' :: "'a FullyConnectedLayer"
  assume run: "fc_unit inx iny inz n i L = Inr L'"
  then obtain cf sumv b out where cf: "vector_at (fc_filters L) i = Some cf"
    and dot: "fc_dot (fc_input L) cf inx iny inz = Inr (sumv, n)"
    and b: "get_flat (fc_bias L) i = Some b"
    and s: "set_xyz (fc_output L) 1 1 i (sumv + b) = Some out"
    by (auto simp: fc_unit_def access_def split: sum.splits option.splits if_splits)
  define k where "k = getElementIdx (fc_output L) 1 1 i"
  have inb: "1 < dim_x (fc_output L) \<and> 1 < dim_y (fc_output L) \<and> i < dim_z (fc_output L) \<and>
      k < length (elems (fc_output L))"
    using s by (simp add: set_xyz_def k_def split: if_splits)
  show "\<exists>ws. \<forall>L2. fc_frame L L2 \<longrightarrow> fc_unit inx iny inz n i L2 = Inr (fc_upd ws L2)"
  proof (intro exI [of _ "[(k, sumv + b)]"] allI impI)
    fix L2
    assume f: "fc_frame L L2"
    have k2: "getElementIdx (fc_output L2) 1 1 i = k"
      using f by (simp add: fc_frame_def dims_def getElementIdx_def k_def)
    have "set_xyz (fc_output L2) 1 1 i (sumv + b) =
        Some ((fc_output L2)\<lparr>elems := (elems (fc_output L2))[k := sumv + b]\<rparr>)"
      using f inb k2 by (simp add: set_xyz_def fc_frame_def dims_def)
    then show "fc_unit inx iny inz n i L2 = Inr (fc_upd [(k, sumv + b)] L2)"
      using f cf dot b
      by (simp add: fc_unit_def access_def fc_upd_def apply_writes_def fc_frame_def)
  qed
qed

lemma FullyConnectedLayer_forward_writer: "writer fc_upd fc_frame FullyConnectedLayer_forward"
  unfolding writer_def
proof (intro allI impI)
  fix L L' :: "'a FullyConnectedLayer"
  assume run: "FullyConnectedLayer_forward L = Inr L'"
  define loops :: "'a FullyConnectedLayer \<Rightarrow> error + 'a FullyConnectedLayer"
    where "loops = for_loop (fc_unit (dim_x (fc_input L)) (dim_y (fc_input L)) (dim_z (fc_input L))
      (size_of (fc_input L))) [0..<dim_z (fc_output L)]"
  have "writer fc_upd fc_frame loops"
    unfolding loops_def by (intro writer_for_loop fc_update_structure fc_unit_writer)
  moreover have "loops L = Inr L'"
    using run by (simp add: FullyConnectedLayer_forward_def dims_def loops_def)
  ultimately obtain ws where ws: "\<And>L2. fc_frame L L2 \<Longrightarrow> loops L2 = Inr (fc_upd ws L2)"
    unfolding writer_def by blast
  show "\<exists>ws. \<forall>L2. fc_frame L L2 \<longrightarrow> FullyConnectedLayer_forward L2 = Inr (fc_upd ws L2)"
  proof (intro exI [of _ ws] allI impI)
    fix L2
    assume f: "fc_frame L L2"
    then have "FullyConnectedLayer_forward L2 = loops L2"
      by (simp add: FullyConnectedLayer_forward_def dims_def loops_def fc_frame_def)
    then show "FullyConnectedLayer_forward L2 = Inr (fc_upd ws L2)"
      using ws [OF f] by simp
  qed
qed

text \<open>
  Consequences for the runs of \<^verbatim>\<open>forward()\<close> that return: such a run stays in the frame
  of the state it started from, and a second run from the state it left ends in that
  same state. Runs that end in an out-of-range store are not covered.
\<close>

lemma ConvLayer_forward_returns_in_frame:
  "ConvLayer_forward L = Inr L' \<Longrightarrow> conv_frame L L'"
  by (rule writer_idem(2) [OF conv_update_structure ConvLayer_forward_writer])

lemma ConvLayer_forward_returns_idem:
  "ConvLayer_forward L = Inr L' \<Longrightarrow> ConvLayer_forward L' = Inr L'"
  by (rule writer_idem(1) [OF conv_update_structure ConvLayer_forward_writer])

lemma FullyConnectedLayer_forward_returns_in_frame:
  "FullyConnectedLayer_forward L = Inr L' \<Longrightarrow> fc_frame L L'"
  by (rule writer_idem(2) [OF fc_update_structure FullyConnectedLayer_forward_writer])

section \<open>Counting the reads of the fully-connected dot product\<close>

lemma for_loop_counts:
  assumes step: "\<And>i s idx s' idx'. idx < size_t_mod \<Longrightarrow> body i (s, idx) = Inr (s', idx') \<Longrightarrow>
      idx' = (idx + k) mod size_t_mod"
  shows "idx < size_t_mod \<Longrightarrow> for_loop body js (s, idx) = Inr (s', idx') \<Longrightarrow>
      idx' = (idx + length js * k) mod size_t_mod"
proof (induction js arbitrary: s idx)
  case Nil
  then show ?case by simp
next
  case (Cons i js)
  from Cons.prems(2) obtain s1 idx1 where b: "body i (s, idx) = Inr (s1, idx1)"
    and rest: "for_loop body js (s1, idx1) = Inr (s', idx')"
    by (auto split: sum.splits)
  have i1: "idx1 = (idx + k) mod size_t_mod"
    using step [OF Cons.prems(1) b] .
  then have "idx1 < size_t_mod"
    by (simp add: size_t_mod_def)
  from Cons.IH [OF this rest] have "idx' = ((idx + k) mod size_t_mod + length js * k) mod size_t_mod"
    unfolding i1 .
  also have "\<dots> = (idx + k + length js * k) mod size_t_mod"
    by (rule mod_add_left_eq)
  finally show ?case by (simp add: add.assoc)
qed

lemma fc_term_counts:
  "fc_term inp cf x y z (s, idx) = Inr (s', idx') \<Longrightarrow> idx' = (idx + 1) mod size_t_mod"
  by (auto simp: fc_term_def sz_add_def split: sum.splits)

lemma fc_dot_counts:
  assumes "fc_dot inp cf inx iny inz = Inr (s, idx)"
  shows "idx = (inx * iny * inz) mod size_t_mod"
proof -
  have z: "\<And>x y s idx s' idx'. idx < size_t_mod \<Longrightarrow>
      for_loop (fc_term inp cf x y) [0..<inz] (s, idx) = Inr (s', idx') \<Longrightarrow>
      idx' = (idx + inz) mod size_t_mod"
    using for_loop_counts [where k = 1 and body = "fc_term inp cf x y" and js = "[0..<inz]" for x y]
      fc_term_counts by fastforce
  have y: "\<And>x s idx s' idx'. idx < size_t_mod \<Longrightarrow>
      for_loop (\<lambda>y. for_loop (fc_term inp cf x y) [0..<inz]) [0..<iny] (s, idx) = Inr (s', idx') \<Longrightarrow>
      idx' = (idx + iny * inz) mod size_t_mod"
    using for_loop_counts [where k = inz and body = "\<lambda>y. for_loop (fc_term inp cf x y) [0..<inz]"
        and js = "[0..<iny]" for x] z by fastforce
  have "0 < size_t_mod"
    by (simp add: size_t_mod_def)
  from for_loop_counts [where k = "iny * inz"
      and body = "\<lambda>x. for_loop (\<lambda>y. for_loop (fc_term inp cf x y) [0..<inz]) [0..<iny]"
      and js = "[0..<inx]", OF y this assms [unfolded fc_dot_def]]
  show ?thesis by (simp add: mult.assoc)
qed

lemma getElementIdx_in_buffer:
  assumes "x < dim_x t" "y < dim_y t" "z < dim_z t"
  shows "getElementIdx t x y z < dim_x t * dim_y t * dim_z t"
proof -
  have "dim_x t * y + x < dim_x t * y + dim_x t"
    using assms(1) by simp
  also have "\<dots> = dim_x t * Suc y"
    by simp
  also have "\<dots> \<le> dim_x t * dim_y t"
    using assms(2) by (intro mult_le_mono2) simp
  finally have "Suc (dim_x t * y + x) \<le> dim_x t * dim_y t"
    by simp
  then have "Suc (dim_x t * y + x) * dim_z t \<le> dim_x t * dim_y t * dim_z t"
    by (rule mult_le_mono1)
  moreover have "(dim_x t * y + x) * dim_z t + z < Suc (dim_x t * y + x) * dim_z t"
    using assms(3) by simp
  ultimately show ?thesis
    unfolding getElementIdx_def by linarith
qed

lemma get_xyz_in_range:
  assumes "wf_Array3D t" "x < dim_x t" "y < dim_y t" "z < dim_z t"
  shows "\<exists>v. get_xyz t x y z = Some v"
  using assms getElementIdx_in_buffer [OF assms(2-4)]
  by (simp add: get_xyz_def wf_Array3D_def)

lemma for_loop_total:
  assumes step: "\<And>i s idx. i \<in> set js \<Longrightarrow> idx + k \<le> n \<Longrightarrow> \<exists>s'. body i (s, idx) = Inr (s', idx + k)"
  shows "idx + length js * k \<le> n \<Longrightarrow> \<exists>s'. for_loop body js (s, idx) = Inr (s', idx + length js * k)"
  using step
proof (induction js arbitrary: s idx)
  case Nil
  then show ?case by simp
next
  case (Cons i js)
  have "idx + k \<le> n"
    using Cons.prems(1) by simp
  then obtain s1 where b: "body i (s, idx) = Inr (s1, idx + k)"
    using Cons.prems(2) [of i idx s] by auto
  have "(idx + k) + length js * k \<le> n"
    using Cons.prems(1) by (simp add: add.assoc)
  then obtain s' where "for_loop body js (s1, idx + k) = Inr (s', (idx + k) + length js * k)"
    using Cons.IH [of "idx + k" s1] Cons.prems(2) by auto
  then show ?case
    using b by (simp add: add.assoc)
qed

lemma fc_term_total:
  assumes "wf_Array3D inp" "x < dim_x inp" "y < dim_y inp" "z < dim_z inp"
    and "idx + 1 \<le> length (elems cf)" and "is_size_t (length (elems cf))"
  shows "\<exists>s'. fc_term inp cf x y z (s, idx) = Inr (s', idx + 1)"
proof -
  obtain v where "get_xyz inp x y z = Some v"
    using get_xyz_in_range [OF assms(1-4)] by blast
  moreover have "sz_add idx 1 = idx + 1"
    using assms(5,6) by (intro sz_add_small) (simp add: is_size_t_def)
  ultimately show ?thesis
    using assms(5) by (simp add: fc_term_def access_def get_flat_def)
qed

lemma fc_dot_total:
  assumes wf: "wf_Array3D inp" and len: "length (elems cf) = size_of inp"
  shows "\<exists>s. fc_dot inp cf (dim_x inp) (dim_y inp) (dim_z inp) = Inr (s, size_of inp)"
proof -
  let ?n = "length (elems cf)"
  have sz: "is_size_t ?n"
    using wf len by (auto simp: wf_Array3D_def size_of_def)
  have z: "\<exists>s'. for_loop (fc_term inp cf x y) [0..<dim_z inp] (s, idx) = Inr (s', idx + dim_z inp)"
    if "x < dim_x inp" "y < dim_y inp" "idx + dim_z inp \<le> ?n" for x y s idx
    using for_loop_total [where k = 1 and n = ?n and body = "fc_term inp cf x y"
        and js = "[0..<dim_z inp]" and idx = idx and s = s]
      fc_term_total [OF wf that(1,2) _ _ sz] that(3) by simp
  have y: "\<exists>s'. for_loop (\<lambda>y. for_loop (fc_term inp cf x y) [0..<dim_z inp]) [0..<dim_y inp] (s, idx) =
      Inr (s', idx + dim_y inp * dim_z inp)"
    if "x < dim_x inp" "idx + dim_y inp * dim_z inp \<le> ?n" for x s idx
    using for_loop_total [where k = "dim_z inp" and n = ?n
        and body = "\<lambda>y. for_loop (fc_term inp cf x y) [0..<dim_z inp]"
        and js = "[0..<dim_y inp]" and idx = idx and s = s]
      z [OF that(1)] that(2) by simp
  have "\<exists>s'. for_loop (\<lambda>x. for_loop (\<lambda>y. for_loop (fc_term inp cf x y) [0..<dim_z inp])
      [0..<dim_y inp]) [0..<dim_x inp] (0, 0) = Inr (s', 0 + dim_x inp * (dim_y inp * dim_z inp))"
    using for_loop_total [where k = "dim_y inp * dim_z inp" and n = ?n
        and body = "\<lambda>x. for_loop (\<lambda>y. for_loop (fc_term inp cf x y) [0..<dim_z inp]) [0..<dim_y inp]"
        and js = "[0..<dim_x inp]" and idx = 0 and s = 0]
      y len by (simp add: size_of_def mult.assoc)
  then show ?thesis
    by (simp add: fc_dot_def size_of_def mult.assoc)
qed

lemma for_loop_no_fault:
  assumes inv: "\<And>i L L'. I L \<Longrightarrow> body i L = Inr L' \<Longrightarrow> I L'"
    and ok: "\<And>i L. I L \<Longrightarrow> body i L \<noteq> Inl e"
  shows "I L \<Longrightarrow> for_loop body js L \<noteq> Inl e"
proof (induction js arbitrary: L)
  case Nil
  then show ?case by simp
next
  case (Cons i js)
  show ?case
  proof (cases "body i L")
    case (Inl e')
    then show ?thesis using ok [OF Cons.prems, of i] by auto
  next
    case (Inr L1)
    then show ?thesis using Cons.IH [OF inv [OF Cons.prems Inr]] by simp
  qed
qed

lemma for_loop_fault:
  assumes "\<And>i s e. body i s = Inl e \<Longrightarrow> P e"
  shows "for_loop body js s = Inl e \<Longrightarrow> P e"
  using assms by (induction js arbitrary: s) (auto split: sum.splits)

lemma fc_dot_fault:
  assumes "fc_dot inp cf inx iny inz = Inl e"
  shows "\<exists>site. e = OutOfBounds site"
proof -
  have "\<exists>site. e = OutOfBounds site" if "fc_term inp cf x y z st = Inl e" for x y z st e
    using that by (auto simp: fc_term_def access_def split: sum.splits option.splits prod.splits)
  then have "\<exists>site. e = OutOfBounds site"
    if "for_loop (fc_term inp cf x y) [0..<inz] st = Inl e" for x y st e
    using for_loop_fault [where body = "fc_term inp cf x y" and P = "\<lambda>e. \<exists>site. e = OutOfBounds site"]
      that by blast
  then have "\<exists>site. e = OutOfBounds site"
    if "for_loop (\<lambda>y. for_loop (fc_term inp cf x y) [0..<inz]) [0..<iny] st = Inl e" for x st e
    using for_loop_fault [where body = "\<lambda>y. for_loop (fc_term inp cf x y) [0..<inz]"
        and P = "\<lambda>e. \<exists>site. e = OutOfBounds site"]
      that by blast
  then show ?thesis
    using for_loop_fault [where body = "\<lambda>x. for_loop (\<lambda>y. for_loop (fc_term inp cf x y) [0..<inz]) [0..<iny]"
        and P = "\<lambda>e. \<exists>site. e = OutOfBounds site"]
      assms unfolding fc_dot_def by blast
qed

lemma fc_forward_faults:
  assumes "dim_x (fc_output L) = 1" and "0 < dim_z (fc_output L)"
  shows "\<exists>e. FullyConnectedLayer_forward L = Inl e"
proof -
  have "set_xyz (fc_output L) 1 1 0 v = None" for v
    using assms(1) by (simp add: set_xyz_def)
  then have "fc_unit (dim_x (fc_input L)) (dim_y (fc_input L)) (dim_z (fc_input L))
      (size_of (fc_input L)) 0 L \<noteq> Inr L'" for L'
    by (auto simp: fc_unit_def access_def split: sum.splits option.splits if_splits)
  then obtain e where "fc_unit (dim_x (fc_input L)) (dim_y (fc_input L)) (dim_z (fc_input L))
      (size_of (fc_input L)) 0 L = Inl e"
    by (meson sumE)
  moreover have "[0..<dim_z (fc_output L)] = 0 # [1..<dim_z (fc_output L)]"
    using assms(2) by (simp add: upt_conv_Cons)
  ultimately show ?thesis
    by (simp add: FullyConnectedLayer_forward_def dims_def)
qed

text \<open>
  Every fully-connected layer that the constructor builds with at least one unit, whatever
  its weights and bias are set to afterwards, ends \<^verbatim>\<open>forward()\<close> in a fault.
\<close>

lemma fc_constructed_forward_faults:
  assumes "FullyConnectedLayer_new (Some inp) outDepth = Inr L" and "0 < outDepth"
  shows "\<exists>e. FullyConnectedLayer_forward (L\<lparr>fc_filters := fs, fc_bias := b\<rparr>) = Inl e"
proof -
  have "fc_output L = reset 1 1 outDepth"
    using assms(1) by (auto simp: FullyConnectedLayer_new_def Let_def)
  then show ?thesis
    using assms(2) by (intro fc_forward_faults) (simp_all add: reset_def)
qed

section \<open>Evaluating the model on concrete layers\<close>

lemma replicate_9: "replicate 9 x = [x, x, x, x, x, x, x, x, x]"
  by (simp add: eval_nat_numeral)

lemma replicate_25:
  "replicate 25 x = [x, x, x, x, x, x, x, x, x, x, x, x, x, x, x, x, x, x, x, x, x, x, x, x, x]"
  by (simp add: eval_nat_numeral)

lemmas new_eval = ConvLayer_new_def FullyConnectedLayer_new_def reset_def sz_sub_def sz_mul_def

lemmas conv_eval = ConvLayer_forward_def conv_slice_def conv_store_def conv_window_def conv_tap_def
  dims_def access_def vector_at_def get_xyz_def set_xyz_def get_flat_def isInBounds_def
  getElementIdx_def sz_add_def size_t_mod_def upt_rec

lemmas fc_eval = FullyConnectedLayer_forward_def fc_unit_def fc_dot_def fc_term_def
  dims_def size_of_def access_def vector_at_def get_xyz_def set_xyz_def get_flat_def
  getElementIdx_def sz_add_def size_t_mod_def upt_rec

lemma ex_fc_forward: "FullyConnectedLayer_forward ex_fc = Inl (OutOfBounds Output)"
  by (simp add: ex_fc_def fc_eval)

lemma ex_fc_dot:
  "fc_dot (fc_input ex_fc) \<lparr>dim_x = 1, dim_y = 1, dim_z = 4, elems = [1, 1, 1, 1]\<rparr> 2 1 2 = Inr (10, 4)"
  by (simp add: ex_fc_def fc_eval)

lemma conv_window_5x5_ones:
  "conv_window
     \<lparr>conv_input = \<lparr>dim_x = 5, dim_y = 5, dim_z = 1, elems = replicate 25 (1 :: int)\<rparr>,
      conv_filters = [\<lparr>dim_x = 3, dim_y = 3, dim_z = 1, elems = replicate 9 1\<rparr>],
      conv_bias = \<lparr>dim_x = 1, dim_y = 1, dim_z = 1, elems = [0]\<rparr>,
      conv_output = \<lparr>dim_x = 3, dim_y = 3, dim_z = 1, elems = replicate 9 0\<rparr>,
      conv_filterSize = 3, conv_stride = 1, conv_pad = 0\<rparr>
     \<lparr>dim_x = 3, dim_y = 3, dim_z = 1, elems = replicate 9 1\<rparr> 1 1 0 = Inr 6"
  by (simp add: conv_eval replicate_9 replicate_25)

section \<open>Construction\<close>

text \<open>
  C2. A \<^verbatim>\<open>ConvLayer\<close> built on a predecessor of spatial size \<open>(W, H)\<close> with filter size
  \<open>F \<le> W\<close>, \<open>F \<le> H\<close>, a stride \<open>S\<close> that can be divided by, and padding \<open>P = 0\<close> is
  constructed, and its output tensor has the shape
  \<open>((W + 2P - F) div S + 1, (H + 2P - F) div S + 1, D)\<close>. The sizes are \<^verbatim>\<open>size_t\<close>
  values, and so are the two resulting dimensions.
\<close>

theorem ConvLayer_output_shape:
  assumes "is_size_t (dim_x inp)" and "is_size_t (dim_y inp)"
    and "filterSize \<le> dim_x inp" and "filterSize \<le> dim_y inp"
    and "stride \<noteq> 0"
    and "is_size_t ((dim_x inp - filterSize) div stride + 1)"
    and "is_size_t ((dim_y inp - filterSize) div stride + 1)"
  shows "\<exists>L. ConvLayer_new (Some inp) outDepth filterSize stride 0 = Inr L \<and>
             dims (conv_output L) =
               ((dim_x inp + 2 * 0 - filterSize) div stride + 1,
                (dim_y inp + 2 * 0 - filterSize) div stride + 1,
                outDepth)"
proof -
  have x: "sz_add (sz_sub (sz_add (dim_x inp) (sz_mul 0 2)) filterSize div stride) 1 =
      (dim_x inp + 2 * 0 - filterSize) div stride + 1"
    using assms by (intro conv_out_dim)
  have y: "sz_add (sz_sub (sz_add (dim_y inp) (sz_mul 0 2)) filterSize div stride) 1 =
      (dim_y inp + 2 * 0 - filterSize) div stride + 1"
    using assms by (intro conv_out_dim)
  show ?thesis
    using \<open>stride \<noteq> 0\<close> x y by (simp add: ConvLayer_new_def dims_def Let_def reset_def)
qed

theorem ConvLayer_output_shape_witness:
  "\<exists>L. ConvLayer_new (Some (reset 9 7 2 :: int Array3D)) 5 3 2 0 = Inr L \<and>
       dims (conv_output L) = (4, 3, 5)"
  using ConvLayer_output_shape [of "reset 9 7 2 :: int Array3D" 3 2 5]
  by (simp add: reset_def is_size_t_def size_t_mod_def)

text \<open>
  C8. With the assertions compiled in, constructing a \<^verbatim>\<open>ConvLayer\<close> with padding other
  than 0 fails the assertion "Unsupported pad size", constructing it with a null
  predecessor fails the assertion "Invalid input layer", and so does constructing a
  \<^verbatim>\<open>FullyConnectedLayer\<close> with a null predecessor; no layer is produced.
\<close>

theorem construction_rejects_pad_and_null:
  "(pad \<noteq> 0 \<longrightarrow>
      ConvLayer_new input outDepth filterSize stride pad =
        Inl (AssertionFailed ''Unsupported pad size'')) \<and>
   (pad = 0 \<and> input = None \<longrightarrow>
      ConvLayer_new input outDepth filterSize stride pad =
        Inl (AssertionFailed ''Invalid input layer'')) \<and>
   FullyConnectedLayer_new (None :: ('a::zero) Array3D option) units = Inl (AssertionFailed ''Invalid input layer'')"
  by (simp add: ConvLayer_new_def FullyConnectedLayer_new_def)

theorem construction_rejects_pad_and_null_witness:
  "ConvLayer_new (Some (reset 5 5 1 :: int Array3D)) 1 3 1 2 =
     Inl (AssertionFailed ''Unsupported pad size'') \<and>
   ConvLayer_new (None :: int Array3D option) 1 3 1 0 =
     Inl (AssertionFailed ''Invalid input layer'') \<and>
   FullyConnectedLayer_new (None :: int Array3D option) 4 =
     Inl (AssertionFailed ''Invalid input layer'')"
  using construction_rejects_pad_and_null [of 2 "Some (reset 5 5 1 :: int Array3D)" 1 3 1 4]
    construction_rejects_pad_and_null [of 0 "None :: int Array3D option" 1 3 1 4]
  by auto

text \<open>
  C6. The constructor has no check of the filter size against the predecessor's
  extent. On a \<open>2 \<times> 2 \<times> 1\<close> predecessor with filter size 3, stride 1 and padding 0 the
  subtraction \<open>2 - 3\<close> wraps to \<open>2 ^ 64 - 1\<close>, adding 1 wraps to 0, and a layer with a
  \<open>0 \<times> 0 \<times> 1\<close> output tensor is returned.
\<close>

theorem ConvLayer_new_oversized_filter:
  "ConvLayer_new (Some \<lparr>dim_x = 2, dim_y = 2, dim_z = 1, elems = [1, 2, 3, 4 :: int]\<rparr>) 1 3 1 0 =
     Inr \<lparr>conv_input = \<lparr>dim_x = 2, dim_y = 2, dim_z = 1, elems = [1, 2, 3, 4]\<rparr>,
          conv_filters = [\<lparr>dim_x = 3, dim_y = 3, dim_z = 1, elems = replicate 9 0\<rparr>],
          conv_bias = \<lparr>dim_x = 1, dim_y = 1, dim_z = 1, elems = [0]\<rparr>,
          conv_output = \<lparr>dim_x = 0, dim_y = 0, dim_z = 1, elems = []\<rparr>,
          conv_filterSize = 3, conv_stride = 1, conv_pad = 0\<rparr>"
  by (simp add: ConvLayer_new_def dims_def reset_def sz_add_def sz_sub_def sz_mul_def
      size_t_mod_def)

section \<open>The convolution forward pass\<close>

text \<open>
  C1. \<^verbatim>\<open>forward()\<close> does not overwrite every output element when the output is wider
  than it is high: the inner spatial loop is bounded by \<open>outy\<close>. On a \<open>2 \<times> 1 \<times> 1\<close>
  predecessor \<open>[5, 7]\<close> with one \<open>1 \<times> 1\<close> filter of weight 1, stride 1 and bias 0, the
  freshly constructed \<open>2 \<times> 1 \<times> 1\<close> output becomes \<open>[5, 0]\<close>: element \<open>(1, 0, 0)\<close>, which
  should hold 7, is never stored.
\<close>

theorem conv_forward_leaves_column_unwritten:
  "(case ConvLayer_new (Some \<lparr>dim_x = 2, dim_y = 1, dim_z = 1, elems = [5, 7 :: int]\<rparr>) 1 1 1 0 of
      Inl e \<Rightarrow> Inl e
    | Inr L \<Rightarrow>
        map_sum id conv_output
          (ConvLayer_forward
             (L\<lparr>conv_filters := [\<lparr>dim_x = 1, dim_y = 1, dim_z = 1, elems = [1]\<rparr>]\<rparr>))) =
   Inr \<lparr>dim_x = 2, dim_y = 1, dim_z = 1, elems = [5, 0]\<rparr>"
  by (simp add: new_eval conv_eval)

text \<open>
  C4. The test that guards \<^verbatim>\<open>inputBuffer.get(ox, oy, fd)\<close> is made on the output tensor,
  so it does not keep \<open>(ox, oy)\<close> inside the input. The layer that the constructor
  returns for a \<open>1 \<times> 1 \<times> 1\<close> predecessor, filter size 2 and stride \<open>2 ^ 63\<close> has a
  \<open>2 \<times> 2 \<times> 1\<close> output; its \<^verbatim>\<open>forward()\<close> reads the input at \<open>(1, 0, 0)\<close>, outside the
  input tensor.
\<close>

theorem conv_forward_reads_outside_input:
  "(case ConvLayer_new (Some \<lparr>dim_x = 1, dim_y = 1, dim_z = 1, elems = [5 :: int]\<rparr>) 1 2 (2 ^ 63) 0 of
      Inl e \<Rightarrow> Inl e
    | Inr L \<Rightarrow> ConvLayer_forward L) =
   Inl (OutOfBounds InputBuffer)"
  by (simp add: new_eval conv_eval)

text \<open>
  C5. For the \<open>5 \<times> 5 \<times> 1\<close> predecessor of all ones and the layer constructed with filter
  size 3, stride 1, padding 0 and output depth 1, with its filter set to all ones and
  its bias left at 0, \<^verbatim>\<open>forward()\<close> yields the \<open>3 \<times> 3 \<times> 1\<close> output
  \<open>[9, 6, 3, 6, 4, 2, 3, 2, 1]\<close>, not nine everywhere: taps at input positions 3 and 4
  fail the test against the \<open>3 \<times> 3\<close> output extent and are dropped.
\<close>

theorem conv_forward_5x5_ones:
  "(case ConvLayer_new (Some \<lparr>dim_x = 5, dim_y = 5, dim_z = 1, elems = replicate 25 (1 :: int)\<rparr>)
           1 3 1 0 of
      Inl e \<Rightarrow> Inl e
    | Inr L \<Rightarrow>
        map_sum id conv_output
          (ConvLayer_forward
             (L\<lparr>conv_filters := [\<lparr>dim_x = 3, dim_y = 3, dim_z = 1, elems = replicate 9 1\<rparr>]\<rparr>))) =
   Inr \<lparr>dim_x = 3, dim_y = 3, dim_z = 1, elems = [9, 6, 3, 6, 4, 2, 3, 2, 1]\<rparr>"
  by (simp add: new_eval conv_eval replicate_9 replicate_25)

text \<open>
  C9. The output of \<^verbatim>\<open>forward()\<close> is not determined by the predecessor's output, the
  filters and the bias. With the same \<open>2 \<times> 1 \<times> 1\<close> predecessor \<open>[5, 7]\<close>, filter and bias,
  a run started with \<open>[0, 0]\<close> in the output tensor leaves \<open>[5, 0]\<close> and one started with
  \<open>[0, -1]\<close> leaves \<open>[5, -1]\<close>: the element the loops skip keeps what it held. And the
  fully-connected layer with one unit never leaves an output at all: each call ends in
  the out-of-range store.
\<close>

theorem forward_output_depends_on_prior_contents:
  "map_sum id conv_output (ConvLayer_forward (ex_row_conv [0, 0])) =
     Inr \<lparr>dim_x = 2, dim_y = 1, dim_z = 1, elems = [5, 0]\<rparr> \<and>
   map_sum id conv_output (ConvLayer_forward (ex_row_conv [0, - 1])) =
     Inr \<lparr>dim_x = 2, dim_y = 1, dim_z = 1, elems = [5, - 1]\<rparr> \<and>
   FullyConnectedLayer_forward ex_fc = Inl (OutOfBounds Output)"
  by (simp add: ex_row_conv_def ex_fc_def conv_eval fc_eval)

text \<open>
  C10. \<^verbatim>\<open>forward()\<close> does not confine its stores to the output tensor. The
  fully-connected layer constructed with two units over the \<open>1 \<times> 1 \<times> 3\<close> predecessor
  \<open>[1, 2, 3]\<close> has a \<open>(1, 1, 2)\<close> output of two elements; its first store goes through
  \<^verbatim>\<open>output_.get(1,1,0)\<close>, which is out of range and addresses buffer position 4. The
  convolution constructed over the \<open>1 \<times> 2 \<times> 1\<close> predecessor \<open>[5, 7]\<close> with filter size 1
  has a \<open>(1, 2, 1)\<close> output; its loop reaches \<open>ax = 1\<close> and stores through
  \<^verbatim>\<open>output_.get(1,0,0)\<close>, out of range as well.
\<close>

theorem forward_stores_outside_output:
  "(case FullyConnectedLayer_new
           (Some \<lparr>dim_x = 1, dim_y = 1, dim_z = 3, elems = [1, 2, 3 :: int]\<rparr>) 2 of
      Inl e \<Rightarrow> None
    | Inr L \<Rightarrow>
        Some (FullyConnectedLayer_forward L, dims (fc_output L),
              getElementIdx (fc_output L) 1 1 0, length (elems (fc_output L)))) =
     Some (Inl (OutOfBounds Output), (1, 1, 2), 4, 2) \<and>
   (case ConvLayer_new (Some \<lparr>dim_x = 1, dim_y = 2, dim_z = 1, elems = [5, 7 :: int]\<rparr>) 1 1 1 0 of
      Inl e \<Rightarrow> None
    | Inr L \<Rightarrow> Some (ConvLayer_forward L, dims (conv_output L))) =
     Some (Inl (OutOfBounds Output), (1, 2, 1))"
  by (simp add: new_eval conv_eval fc_eval)

section \<open>The fully-connected forward pass\<close>

text \<open>
  C3. \<^verbatim>\<open>forward()\<close> stores through \<^verbatim>\<open>output_.get(1,1,i)\<close>, but the output tensor is shaped
  \<open>(1, 1, D)\<close> and has no element with \<open>x = 1\<close> or \<open>y = 1\<close>. For the layer constructed
  with one unit over the \<open>2 \<times> 1 \<times> 2\<close> predecessor \<open>[1, 2, 3, 4]\<close>, with weights all one
  and bias 0, the run ends in an out-of-range store instead of leaving 10 in output
  element 0.
\<close>

theorem fc_forward_store_out_of_bounds:
  "(case FullyConnectedLayer_new
           (Some \<lparr>dim_x = 2, dim_y = 1, dim_z = 2, elems = [1, 2, 3, 4 :: int]\<rparr>) 1 of
      Inl e \<Rightarrow> Inl e
    | Inr L \<Rightarrow>
        FullyConnectedLayer_forward
          (L\<lparr>fc_filters := [\<lparr>dim_x = 1, dim_y = 1, dim_z = 4, elems = [1, 1, 1, 1]\<rparr>]\<rparr>)) =
   Inl (OutOfBounds Output)"
  by (simp add: new_eval fc_eval)

text \<open>
  C7. When the predecessor's tensor has as many elements as the product of its
  dimensions, every completed flattening loop of \<^verbatim>\<open>forward()\<close> has read exactly
  \<open>numInputs = size()\<close> elements (\<open>idx\<close> ends at \<open>numInputs\<close>), the loop does complete for
  a filter of \<open>numInputs\<close> weights, and \<^verbatim>\<open>forward()\<close> never fails the assertion
  \<^verbatim>\<open>idx == numInputs\<close>.
\<close>

theorem fc_forward_reads_numInputs:
  assumes wf: "wf_Array3D (fc_input L)"
  shows "(\<forall>currFilter sumv idx.
            fc_dot (fc_input L) currFilter (dim_x (fc_input L)) (dim_y (fc_input L))
              (dim_z (fc_input L)) = Inr (sumv, idx) \<longrightarrow>
            idx = size_of (fc_input L)) \<and>
         (\<forall>currFilter.
            length (elems currFilter) = size_of (fc_input L) \<longrightarrow>
            (\<exists>sumv. fc_dot (fc_input L) currFilter (dim_x (fc_input L)) (dim_y (fc_input L))
              (dim_z (fc_input L)) = Inr (sumv, size_of (fc_input L)))) \<and>
         FullyConnectedLayer_forward L \<noteq> Inl (AssertionFailed ''Invalid index'')"
proof (intro conjI allI impI)
  let ?inp = "fc_input L"
  have small: "size_of ?inp < size_t_mod"
    using wf by (auto simp: wf_Array3D_def size_of_def is_size_t_def)
  have count: "idx = size_of ?inp"
    if "fc_dot ?inp cf (dim_x ?inp) (dim_y ?inp) (dim_z ?inp) = Inr (sumv, idx)" for cf sumv idx
    using fc_dot_counts [OF that] small by (simp add: size_of_def)
  show "idx = size_of ?inp"
    if "fc_dot ?inp cf (dim_x ?inp) (dim_y ?inp) (dim_z ?inp) = Inr (sumv, idx)" for cf sumv idx
    using that by (rule count)
  show "\<exists>sumv. fc_dot ?inp cf (dim_x ?inp) (dim_y ?inp) (dim_z ?inp) = Inr (sumv, size_of ?inp)"
    if "length (elems cf) = size_of ?inp" for cf
    using wf that by (rule fc_dot_total)
  define body :: "nat \<Rightarrow> 'a FullyConnectedLayer \<Rightarrow> error + 'a FullyConnectedLayer"
    where "body = fc_unit (dim_x ?inp) (dim_y ?inp) (dim_z ?inp) (size_of ?inp)"
  have inv: "fc_input L2 = ?inp" if "fc_input L1 = ?inp" "body i L1 = Inr L2" for i L1 L2
    using writer_idem(2) [OF fc_update_structure fc_unit_writer that(2) [unfolded body_def]] that(1)
    by (simp add: fc_frame_def)
  have ok: "body i L1 \<noteq> Inl (AssertionFailed ''Invalid index'')" if "fc_input L1 = ?inp" for i L1
    using that count fc_dot_fault
    by (fastforce simp: body_def fc_unit_def access_def split: sum.splits option.splits)
  have "for_loop body [0..<dim_z (fc_output L)] L \<noteq> Inl (AssertionFailed ''Invalid index'')"
  proof (rule for_loop_no_fault [where I = "\<lambda>L1. fc_input L1 = ?inp"])
    fix i and L1 L2 :: "'a FullyConnectedLayer"
    assume "fc_input L1 = ?inp" and "body i L1 = Inr L2"
    then show "fc_input L2 = ?inp" by (rule inv)
  next
    fix i and L1 :: "'a FullyConnectedLayer"
    assume "fc_input L1 = ?inp"
    then show "body i L1 \<noteq> Inl (AssertionFailed ''Invalid index'')" by (rule ok)
  next
    show "fc_input L = ?inp" by simp
  qed
  then show "FullyConnectedLayer_forward L \<noteq> Inl (AssertionFailed ''Invalid index'')"
    by (simp add: FullyConnectedLayer_forward_def dims_def body_def)
qed

theorem fc_forward_reads_numInputs_witness:
  "wf_Array3D (fc_input ex_fc) \<and>
   fc_dot (fc_input ex_fc) \<lparr>dim_x = 1, dim_y = 1, dim_z = 4, elems = [1, 1, 1, 1]\<rparr> 2 1 2 = Inr (10, 4) \<and>
   size_of (fc_input ex_fc) = 4 \<and>
   FullyConnectedLayer_forward ex_fc \<noteq> Inl (AssertionFailed ''Invalid index'')"
proof -
  have wf: "wf_Array3D (fc_input ex_fc)"
    by (simp add: ex_fc_def wf_Array3D_def is_size_t_def size_t_mod_def)
  have "FullyConnectedLayer_forward ex_fc \<noteq> Inl (AssertionFailed ''Invalid index'')"
    using fc_forward_reads_numInputs [OF wf] by (elim conjE)
  moreover have "size_of (fc_input ex_fc) = 4"
    by (simp add: ex_fc_def size_of_def)
  ultimately show ?thesis
    using wf ex_fc_dot by (intro conjI)
qed

end
